theory Spec2Isabelle
  imports Complex_Main
begin

section \<open>JavaScript values\<close>

text \<open>
  The quantities of \<^verbatim>\<open>src/src/App.jsx\<close> are JavaScript numbers. The model keeps
  the finite values as exact rationals and adds \<open>NaN\<close>, the one special value the
  code can produce (\<^verbatim>\<open>parseFloat('')\<close>). The rounding of IEEE doubles and the
  infinities are outside the model: every statement below about sums and comparisons
  is a statement about exact arithmetic.
\<close>

datatype jsnum = Num rat | NaN

fun jsadd :: "jsnum \<Rightarrow> jsnum \<Rightarrow> jsnum" where
  "jsadd (Num a) (Num b) = Num (a + b)"
| "jsadd _ _ = NaN"

fun jssub :: "jsnum \<Rightarrow> jsnum \<Rightarrow> jsnum" where
  "jssub (Num a) (Num b) = Num (a - b)"
| "jssub _ _ = NaN"

text \<open>\<^verbatim>\<open>a > b\<close>: every comparison with \<open>NaN\<close> is false.\<close>

fun jsgt :: "jsnum \<Rightarrow> jsnum \<Rightarrow> bool" where
  "jsgt (Num a) (Num b) = (b < a)"
| "jsgt _ _ = False"

text \<open>\<^verbatim>\<open>x || 0\<close> on a number: \<open>NaN\<close> and \<open>0\<close> are falsy.\<close>

fun or0 :: "jsnum \<Rightarrow> rat" where
  "or0 (Num a) = a"
| "or0 NaN = 0"

text \<open>
  What the backend receives and returns is JSON: \<^verbatim>\<open>JSON.stringify\<close> writes
  \<open>NaN\<close> as \<^verbatim>\<open>null\<close>. A stored number is a \<open>rat option\<close>, \<open>None\<close> for
  \<^verbatim>\<open>null\<close>, and \<^verbatim>\<open>sum + null\<close> is \<^verbatim>\<open>sum\<close>.
\<close>

fun toJSON :: "jsnum \<Rightarrow> rat option" where
  "toJSON (Num a) = Some a"
| "toJSON NaN = None"

fun num0 :: "rat option \<Rightarrow> rat" where
  "num0 (Some a) = a"
| "num0 None = 0"

text \<open>Other JSON values: the rows of the requisitions table, and the labor, materials
  and machinery entries that a daily log carries unchanged.\<close>

datatype jsval =
    Null
  | Str string
  | Numb rat
  | Arr "jsval list"
  | Obj "(string \<times> jsval) list"

subsection \<open>parseFloat\<close>

text \<open>
  \<^verbatim>\<open>parseFloat\<close> reads the longest prefix that is a decimal literal, after leading
  white space: a sign, digits, a fraction, an exponent. With no digit it is \<open>NaN\<close>.
  The literal \<^verbatim>\<open>Infinity\<close> is not modelled (a number input never has that value),
  and of the white space characters only those of ASCII are.
\<close>

definition isDigit :: "char \<Rightarrow> bool" where
  "isDigit c = (c \<in> set ''0123456789'')"

definition isWhite :: "char \<Rightarrow> bool" where
  "isWhite c = (c \<in> {CHR '' '', CHR 0x09, CHR 0x0A, CHR 0x0B, CHR 0x0C, CHR 0x0D})"

text \<open>The value of a digit is its place in the row of the ten digits.\<close>

definition digitVal :: "char \<Rightarrow> nat" where
  "digitVal c = length (takeWhile (\<lambda>d. d \<noteq> c) ''0123456789'')"

definition digitsVal :: "string \<Rightarrow> nat" where
  "digitsVal ds = foldl (\<lambda>n c. 10 * n + digitVal c) 0 ds"

text \<open>A sign at the head of the text: whether it is a minus, and the rest.\<close>

fun signOf :: "string \<Rightarrow> bool \<times> string" where
  "signOf [] = (False, [])"
| "signOf (c # r) =
     (if c = CHR ''-'' then (True, r) else if c = CHR ''+'' then (False, r) else (False, c # r))"

text \<open>The fraction digits after a point, if the text starts with a point.\<close>

fun fractionOf :: "string \<Rightarrow> string" where
  "fractionOf [] = []"
| "fractionOf (c # r) = (if c = CHR ''.'' then takeWhile isDigit r else [])"

fun afterFraction :: "string \<Rightarrow> string" where
  "afterFraction [] = []"
| "afterFraction (c # r) = (if c = CHR ''.'' then dropWhile isDigit r else c # r)"

text \<open>The exponent part counts only when a digit follows the \<^verbatim>\<open>e\<close> and its sign.\<close>

fun exponentOf :: "string \<Rightarrow> bool \<times> nat" where
  "exponentOf [] = (False, 0)"
| "exponentOf (c # r) =
     (if c = CHR ''e'' \<or> c = CHR ''E''
      then (let (neg, ds) = signOf r in (neg, digitsVal (takeWhile isDigit ds)))
      else (False, 0))"

definition parseFloat :: "string \<Rightarrow> jsnum" where
  "parseFloat s =
     (let (neg, t) = signOf (dropWhile isWhite s);
          ip = takeWhile isDigit t;
          r1 = dropWhile isDigit t;
          fp = fractionOf r1;
          (eneg, e) = exponentOf (afterFraction r1);
          mant = of_nat (digitsVal ip) + of_nat (digitsVal fp) / 10 ^ length fp;
          scaled = (if eneg then mant / 10 ^ e else mant * 10 ^ e)
      in if ip = [] \<and> fp = [] then NaN
         else Num (if neg then - scaled else scaled))"

section \<open>Daily logs against the bill of quantities\<close>

subsection \<open>Rows and form state\<close>

text \<open>A row of \<^verbatim>\<open>boq_items\<close>, with the columns the code reads.\<close>

record boq_item =
  boq_id :: string
  boq_code :: string
  total_metrado :: rat
  unit_price :: rat

text \<open>A row of \<^verbatim>\<open>daily_logs\<close>. The review columns are \<open>None\<close> (\<^verbatim>\<open>null\<close>)
  until \<^verbatim>\<open>updateLogStatus\<close> writes them.\<close>

record daily_log =
  log_id :: string
  project_id :: string
  boq_item_id :: string
  foreman_id :: string
  log_date :: string
  quantity_executed :: "rat option"
  labor_json :: "jsval list"
  materials_json :: "jsval list"
  machinery_json :: "jsval list"
  evidence_urls :: "string list"
  log_notes :: string
  status :: string
  reviewed_by :: "string option"
  reviewed_at :: "string option"
  rejection_reason :: "string option"

text \<open>The \<^verbatim>\<open>formData\<close> state of the foreman's form (v5 \<^verbatim>\<open>ForemanModule\<close>).\<close>

record formData =
  boqItemId :: string
  date :: string
  quantityExecuted :: string
  form_notes :: string
  labor :: "jsval list"
  materials :: "jsval list"
  machinery :: "jsval list"

text \<open>The text of a toast. The over-budget message interpolates two numbers, kept
  here as they are instead of being printed into the string.\<close>

datatype message = Text string | MayorMetrado jsnum rat

text \<open>What \<^verbatim>\<open>validateQuantity\<close> returns: \<^verbatim>\<open>{valid: true}\<close> with or without
  \<^verbatim>\<open>remaining\<close>, or \<^verbatim>\<open>{valid: false, message}\<close>.\<close>

datatype validation = Valid "jsnum option" | Invalid message

fun valid :: "validation \<Rightarrow> bool" where
  "valid (Valid _) = True"
| "valid (Invalid _) = False"

subsection \<open>validateQuantity\<close>

text \<open>\<^verbatim>\<open>dailyLogs.filter(l => l.boq_item_id === id && l.status === st)
  .reduce((sum, l) => sum + l.quantity_executed, 0)\<close>\<close>

definition sumQty :: "daily_log list \<Rightarrow> string \<Rightarrow> string \<Rightarrow> rat" where
  "sumQty dailyLogs i st =
     foldl (\<lambda>sum l. sum + num0 (quantity_executed l)) 0
       (filter (\<lambda>l. boq_item_id l = i \<and> status l = st) dailyLogs)"

definition approvedQty :: "daily_log list \<Rightarrow> string \<Rightarrow> rat" where
  "approvedQty dailyLogs i = sumQty dailyLogs i ''approved''"

definition pendingQty :: "daily_log list \<Rightarrow> string \<Rightarrow> rat" where
  "pendingQty dailyLogs i = sumQty dailyLogs i ''pending''"

definition validateQuantity :: "formData \<Rightarrow> boq_item list \<Rightarrow> daily_log list \<Rightarrow> validation" where
  "validateQuantity fd boqItems dailyLogs =
     (if boqItemId fd = [] \<or> quantityExecuted fd = [] then Valid None
      else case find (\<lambda>b. boq_id b = boqItemId fd) boqItems of
        None \<Rightarrow> Invalid (Text ''Partida no encontrada'')
      | Some boqItem \<Rightarrow>
          (let newQty = parseFloat (quantityExecuted fd);
               totalAfterNew =
                 jsadd (Num (approvedQty dailyLogs (boqItemId fd) + pendingQty dailyLogs (boqItemId fd)))
                   newQty
           in if jsgt totalAfterNew (Num (total_metrado boqItem))
              then Invalid (MayorMetrado totalAfterNew (total_metrado boqItem))
              else Valid (Some (jssub (Num (total_metrado boqItem)) totalAfterNew))))"

subsection \<open>The backend and the session\<close>

text \<open>
  The tables live in the cloud backend and the React state \<^verbatim>\<open>dailyLogs\<close> mirrors
  them through the realtime subscription (\<^verbatim>\<open>setupRealtimeSubscriptions\<close>): an
  insert puts the new row in front, an update replaces the rows with that id. The
  model keeps one list per table, changed that way at once. What the backend
  answers is an input of each operation: \<open>None\<close> for \<^verbatim>\<open>error\<close> being
  \<^verbatim>\<open>null\<close>, \<open>Some m\<close> for an error with message \<open>m\<close>. View state that
  no claim reads (the loading and submitting flags, the reset of the form) is left out.
\<close>

record session =
  user_id :: string
  currentProject_id :: string

text \<open>\<^verbatim>\<open>const { addToast } = useToast()\<close>: a toast is a message and its type.\<close>

type_synonym toast = "message \<times> string"

text \<open>The argument of \<^verbatim>\<open>createDailyLog\<close>.\<close>

record logData =
  ld_boqItemId :: string
  ld_date :: string
  ld_quantityExecuted :: jsnum
  ld_notes :: string
  ld_labor :: "jsval list"
  ld_materials :: "jsval list"
  ld_machinery :: "jsval list"

text \<open>What the backend does during one \<^verbatim>\<open>createDailyLog\<close>: the URL that
  \<^verbatim>\<open>uploadEvidence\<close> returns (\<open>None\<close> for \<^verbatim>\<open>null\<close>), the error of the
  insert, and the id it gives the new row.\<close>

record insert_reply =
  uploaded :: "string option"
  insert_error :: "string option"
  new_id :: string

subsection \<open>createDailyLog and handleSubmit\<close>

definition createDailyLog ::
  "session \<Rightarrow> logData \<Rightarrow> string option \<Rightarrow> insert_reply \<Rightarrow> daily_log list
     \<Rightarrow> (string + daily_log) \<times> daily_log list" where
  "createDailyLog se ld evidenceFile reply dailyLogs =
     (let evidenceUrl = (case evidenceFile of None \<Rightarrow> None | Some f \<Rightarrow> uploaded reply);
          row = \<lparr> log_id = new_id reply,
                  project_id = currentProject_id se,
                  boq_item_id = ld_boqItemId ld,
                  foreman_id = user_id se,
                  log_date = ld_date ld,
                  quantity_executed = toJSON (ld_quantityExecuted ld),
                  labor_json = ld_labor ld,
                  materials_json = ld_materials ld,
                  machinery_json = ld_machinery ld,
                  evidence_urls = (case evidenceUrl of None \<Rightarrow> [] | Some u \<Rightarrow> if u = [] then [] else [u]),
                  log_notes = ld_notes ld,
                  status = ''pending'',
                  reviewed_by = None,
                  reviewed_at = None,
                  rejection_reason = None \<rparr>
      in case insert_error reply of
           Some m \<Rightarrow> (Inl m, dailyLogs)
         | None \<Rightarrow> (Inr row, row # dailyLogs))"

text \<open>\<^verbatim>\<open>validation.message\<close>, read only when the validation is not valid.\<close>

fun message_of :: "validation \<Rightarrow> message" where
  "message_of (Invalid m) = m"
| "message_of (Valid _) = Text []"

definition handleSubmit ::
  "session \<Rightarrow> boq_item list \<Rightarrow> formData \<Rightarrow> string option \<Rightarrow> insert_reply \<Rightarrow> daily_log list
     \<Rightarrow> toast \<times> daily_log list" where
  "handleSubmit se boqItems fd evidenceFile reply dailyLogs =
     (let validation = validateQuantity fd boqItems dailyLogs
      in if \<not> valid validation then ((message_of validation, ''error''), dailyLogs)
         else case createDailyLog se
                \<lparr> ld_boqItemId = boqItemId fd,
                  ld_date = date fd,
                  ld_quantityExecuted = parseFloat (quantityExecuted fd),
                  ld_notes = form_notes fd,
                  ld_labor = labor fd,
                  ld_materials = materials fd,
                  ld_machinery = machinery fd \<rparr>
                evidenceFile reply dailyLogs of
           (Inr _, logs') \<Rightarrow> ((Text ''Reporte enviado correctamente'', ''success''), logs')
         | (Inl m, logs') \<Rightarrow> ((Text (''Error al enviar reporte: '' @ m), ''error''), logs'))"

subsection \<open>updateLogStatus and the engineer's handlers\<close>






section \<open>Requisitions\<close>

text \<open>
  A requisition is handled as the JavaScript object it is: a map from column names to
  JSON values. \<^verbatim>\<open>updateRequisitionStatus\<close> builds its update with a spread of
  \<^verbatim>\<open>additionalData\<close>, an object of any shape, and the backend overwrites the
  columns the update names.
\<close>

type_synonym row = "string \<rightharpoonup> jsval"

text \<open>One property of an object literal: a value that is \<^verbatim>\<open>undefined\<close> (\<open>None\<close>)
  is not sent.\<close>

definition field :: "string \<Rightarrow> jsval option \<Rightarrow> row" where
  "field k v = (case v of None \<Rightarrow> Map.empty | Some x \<Rightarrow> [k \<mapsto> x])"

subsection \<open>createRequisition\<close>

definition createRequisition ::
  "session \<Rightarrow> row \<Rightarrow> string option \<Rightarrow> string \<Rightarrow> row list \<Rightarrow> (string + row) \<times> row list" where
  "createRequisition se reqData err newId requisitions =
     (let data = [''id'' \<mapsto> Str newId,
                  ''project_id'' \<mapsto> Str (currentProject_id se)]
                 ++ field ''material_id'' (reqData ''materialId'')
                 ++ field ''item_name'' (reqData ''itemName'')
                 ++ field ''item_description'' (reqData ''description'')
                 ++ field ''quantity'' (reqData ''quantity'')
                 ++ field ''unit'' (reqData ''unit'')
                 ++ field ''urgency'' (reqData ''urgency'')
                 ++ [''requested_by'' \<mapsto> Str (user_id se)]
                 ++ field ''request_notes'' (reqData ''notes'')
                 ++ [''status'' \<mapsto> Str ''pending_pm'']
      in case err of
           Some m \<Rightarrow> (Inl m, requisitions)
         | None \<Rightarrow> (Inr data, data # requisitions))"

definition handleCreateRequisition ::
  "session \<Rightarrow> row \<Rightarrow> string option \<Rightarrow> string \<Rightarrow> row list \<Rightarrow> toast \<times> row list" where
  "handleCreateRequisition se reqForm err newId requisitions =
     (case createRequisition se reqForm err newId requisitions of
        (Inr _, reqs') \<Rightarrow> ((Text ''Requerimiento enviado correctamente'', ''success''), reqs')
      | (Inl m, reqs') \<Rightarrow> ((Text (''Error: '' @ m), ''error''), reqs'))"

subsection \<open>updateRequisitionStatus\<close>

text \<open>The object \<^verbatim>\<open>updateData\<close> as it stands when it is sent.\<close>

definition updateData :: "session \<Rightarrow> string \<Rightarrow> string \<Rightarrow> row \<Rightarrow> row" where
  "updateData se now st additionalData =
     (let u = [''status'' \<mapsto> Str st] ++ additionalData
      in if st = ''approved'' \<or> st = ''to_buy''
         then u(''approved_by'' \<mapsto> Str (user_id se), ''approved_at'' \<mapsto> Str now)
         else if st = ''in_transit''
         then u(''purchased_by'' \<mapsto> Str (user_id se), ''purchased_at'' \<mapsto> Str now)
         else if st = ''received'' \<or> st = ''completed''
         then u(''received_by'' \<mapsto> Str (user_id se), ''received_at'' \<mapsto> Str now)
         else u)"


definition updateRequisitionStatus ::
  "session \<Rightarrow> string \<Rightarrow> string \<Rightarrow> string \<Rightarrow> row \<Rightarrow> string option \<Rightarrow> row list
     \<Rightarrow> (string + unit) \<times> row list" where
  "updateRequisitionStatus se now reqId st additionalData err requisitions =
     (case err of
        Some m \<Rightarrow> (Inl m, requisitions)
      | None \<Rightarrow>
          (Inr (),
           map (\<lambda>r. if r ''id'' = Some (Str reqId) then r ++ updateData se now st additionalData else r)
             requisitions))"

subsection \<open>The logistics view\<close>



definition completedReqs :: "row list \<Rightarrow> row list" where
  "completedReqs requisitions =
     filter (\<lambda>r. r ''status'' = Some (Str ''completed'') \<or> r ''status'' = Some (Str ''received''))
       requisitions"

text \<open>The \<^verbatim>\<open>documents\<close> state of the upload dialog.\<close>

record documents =
  factura :: bool
  guia :: bool
  foto :: bool

text \<open>\<open>ms\<close> is \<^verbatim>\<open>Date.now()\<close> as it prints in the file names; the three calls
  are taken to give the same value.\<close>

definition handlePurchase ::
  "session \<Rightarrow> string \<Rightarrow> string \<Rightarrow> documents \<Rightarrow> string \<Rightarrow> string option \<Rightarrow> row list
     \<Rightarrow> toast \<times> row list" where
  "handlePurchase se now ms docs reqId err requisitions =
     (if \<not> factura docs then ((Text ''La factura es requerida'', ''warning''), requisitions)
      else case updateRequisitionStatus se now reqId ''in_transit''
                  [''evidence_urls'' \<mapsto>
                     Obj [(''factura'', if factura docs then Str (''FAC-'' @ ms @ ''.pdf'') else Null),
                          (''guia_remision'', if guia docs then Str (''GR-'' @ ms @ ''.pdf'') else Null),
                          (''foto_material'', if foto docs then Str (''FOTO-'' @ ms @ ''.jpg'') else Null)]]
                  err requisitions of
             (Inr _, reqs') \<Rightarrow> ((Text ''Compra registrada exitosamente'', ''success''), reqs')
           | (Inl m, reqs') \<Rightarrow> ((Text (''Error: '' @ m), ''error''), reqs'))"

text \<open>The engineer's view confirms a receipt with the label \<^verbatim>\<open>completed\<close>.\<close>

definition handleConfirmReceived ::
  "session \<Rightarrow> string \<Rightarrow> string \<Rightarrow> string option \<Rightarrow> row list \<Rightarrow> toast \<times> row list" where
  "handleConfirmReceived se now reqId err requisitions =
     (case updateRequisitionStatus se now reqId ''completed'' Map.empty err requisitions of
        (Inr _, reqs') \<Rightarrow> ((Text ''Material recibido confirmado'', ''success''), reqs')
      | (Inl m, reqs') \<Rightarrow> ((Text (''Error: '' @ m), ''error''), reqs'))"

subsection \<open>getStatusBadge\<close>

text \<open>The badge of a status: background class, text class, icon and label. The icon
  is given by its Unicode code point, a letter outside ASCII by its UTF-8 bytes.\<close>

record badge =
  bg :: string
  text_class :: string
  icon :: nat
  label :: string

definition badges :: "string \<rightharpoonup> badge" where
  "badges =
     [''pending'' \<mapsto> \<lparr>bg = ''bg-yellow-100'', text_class = ''text-yellow-700'', icon = 0x1F552, label = ''Pendiente''\<rparr>,
      ''approved'' \<mapsto> \<lparr>bg = ''bg-green-100'', text_class = ''text-green-700'', icon = 0x2705, label = ''Aprobado''\<rparr>,
      ''rejected'' \<mapsto> \<lparr>bg = ''bg-red-100'', text_class = ''text-red-700'', icon = 0x274C, label = ''Rechazado''\<rparr>,
      ''pending_pm'' \<mapsto> \<lparr>bg = ''bg-yellow-100'', text_class = ''text-yellow-700'', icon = 0x1F552, label = ''Pendiente PM''\<rparr>,
      ''to_buy'' \<mapsto> \<lparr>bg = ''bg-blue-100'', text_class = ''text-blue-700'', icon = 0x1F6D2, label = ''Por Comprar''\<rparr>,
      ''in_transit'' \<mapsto> \<lparr>bg = ''bg-orange-100'', text_class = ''text-orange-700'', icon = 0x1F69A, label = ''En Tr'' @ [CHR 0xC3, CHR 0xA1] @ ''nsito''\<rparr>,
      ''received'' \<mapsto> \<lparr>bg = ''bg-green-100'', text_class = ''text-green-700'', icon = 0x1F4E6, label = ''Recibido''\<rparr>,
      ''completed'' \<mapsto> \<lparr>bg = ''bg-green-100'', text_class = ''text-green-700'', icon = 0x2705, label = ''Completado''\<rparr>]"

text \<open>\<^verbatim>\<open>badges[status] || badges.pending\<close>\<close>

definition getStatusBadge :: "string \<Rightarrow> badge" where
  "getStatusBadge st =
     (case badges st of
        Some b \<Rightarrow> b
      | None \<Rightarrow> \<lparr>bg = ''bg-yellow-100'', text_class = ''text-yellow-700'', icon = 0x1F552, label = ''Pendiente''\<rparr>)"

section \<open>Daily reports against the partidas\<close>

text \<open>
  The first \<^verbatim>\<open>ForemanModule\<close> of \<^verbatim>\<open>App.jsx\<close> writes a row of
  \<^verbatim>\<open>daily_reports\<close> and then the progress of the partida, in two calls of the
  backend. Its functions \<^verbatim>\<open>validateSubmission\<close> and \<^verbatim>\<open>handleSubmit\<close>
  are modelled here; the second carries the suffix \<open>_report\<close>, the name
  \<open>handleSubmit\<close> being taken by the form of the daily logs above.
\<close>

fun jsmul :: "jsnum \<Rightarrow> jsnum \<Rightarrow> jsnum" where
  "jsmul (Num a) (Num b) = Num (a * b)"
| "jsmul _ _ = NaN"

record partida =
  partida_id :: string
  current_progress :: "rat option"
  total_budgeted :: "rat option"

record laborRow =
  worker_type :: string
  hours :: string

record materialRow =
  material_id :: string
  quantity :: string

record material =
  mat_id :: string
  mat_name :: string
  mat_unit :: string
  unit_cost :: "rat option"

record laborEntry =
  le_worker_type :: string
  le_hours :: jsnum
  le_rate :: rat
  le_cost :: jsnum

record materialEntry =
  me_material_id :: string
  me_material_name :: string
  me_quantity :: jsnum
  me_unit :: string
  me_unit_cost :: rat
  me_total_cost :: jsnum

record daily_report =
  report_id :: string
  rep_project_id :: string
  rep_partida_id :: string
  rep_user_id :: string
  report_date :: string
  progress_value :: rat
  labor_data :: "laborEntry list"
  materials_data :: "materialEntry list"
  photos :: "jsval list"
  rep_notes :: string
  total_labor_cost :: jsnum
  total_materials_cost :: jsnum

text \<open>The state of the form.\<close>

record reportForm =
  selectedPartida :: "partida option"
  progressInput :: string
  laborRows :: "laborRow list"
  materialRows :: "materialRow list"
  rf_photos :: "jsval list"
  rf_notes :: string

text \<open>The two tables this form writes.\<close>

record report_store =
  daily_reports :: "daily_report list"
  partidas :: "partida list"

definition workerTypes :: "(string \<times> rat) list" where
  "workerTypes = [(''peon'', 80), (''oficial'', 120), (''operario'', 150), (''capataz'', 200)]"

text \<open>\<^verbatim>\<open>row.hours && parseFloat(row.hours) > 0\<close>, and the same test on a quantity.\<close>

definition positiveText :: "string \<Rightarrow> bool" where
  "positiveText s = (s \<noteq> [] \<and> jsgt (parseFloat s) (Num 0))"

text \<open>What \<^verbatim>\<open>validateSubmission\<close> decides, with the text it puts in
  \<^verbatim>\<open>validationError\<close> (without the numbers it interpolates and without accents).\<close>

datatype submission_check = Accepted | Refused string

definition validateSubmission :: "reportForm \<Rightarrow> submission_check" where
  "validateSubmission rf =
     (case selectedPartida rf of
        None \<Rightarrow> Refused ''Debe seleccionar una partida''
      | Some sp \<Rightarrow>
          (let progress = or0 (parseFloat (progressInput rf));
               currentProgress = num0 (current_progress sp);
               totalBudgeted = num0 (total_budgeted sp)
           in if currentProgress + progress > totalBudgeted
              then Refused ''El avance excede el presupuesto''
              else if \<not> list_ex (\<lambda>r. positiveText (hours r)) (laborRows rf)
              then Refused ''Debe ingresar al menos una fila de mano de obra con horas validas''
              else Accepted))"

definition laborData :: "laborRow list \<Rightarrow> laborEntry list" where
  "laborData rows =
     map (\<lambda>r. let rate = (case map_of workerTypes (worker_type r) of Some x \<Rightarrow> x | None \<Rightarrow> 0)
               in \<lparr> le_worker_type = worker_type r,
                    le_hours = parseFloat (hours r),
                    le_rate = rate,
                    le_cost = jsmul (parseFloat (hours r)) (Num rate) \<rparr>)
       (filter (\<lambda>r. positiveText (hours r)) rows)"

definition materialsData :: "material list \<Rightarrow> materialRow list \<Rightarrow> materialEntry list" where
  "materialsData catalog rows =
     map (\<lambda>r. let m = find (\<lambda>m. mat_id m = material_id r) catalog;
                   cost = (case m of Some x \<Rightarrow> num0 (unit_cost x) | None \<Rightarrow> 0)
               in \<lparr> me_material_id = material_id r,
                    me_material_name = (case m of Some x \<Rightarrow> mat_name x | None \<Rightarrow> []),
                    me_quantity = parseFloat (quantity r),
                    me_unit = (case m of Some x \<Rightarrow> mat_unit x | None \<Rightarrow> []),
                    me_unit_cost = cost,
                    me_total_cost = jsmul (parseFloat (quantity r)) (Num cost) \<rparr>)
       (filter (\<lambda>r. material_id r \<noteq> [] \<and> positiveText (quantity r)) rows)"

text \<open>What the backend answers to the two calls of one submission, and the id of the
  new report.\<close>

record report_reply =
  reportError :: "string option"
  updateError :: "string option"
  new_report_id :: string

text \<open>The row that \<^verbatim>\<open>handleSubmit\<close> inserts into \<^verbatim>\<open>daily_reports\<close>, with
  the id the backend gives it.\<close>

definition reportRow ::
  "string \<Rightarrow> string \<Rightarrow> string \<Rightarrow> material list \<Rightarrow> reportForm \<Rightarrow> partida \<Rightarrow> string \<Rightarrow> daily_report" where
  "reportRow projectId currentUserId today catalog rf sp newId =
     (let ldata = laborData (laborRows rf);
          mdata = materialsData catalog (materialRows rf)
      in \<lparr> report_id = newId,
           rep_project_id = projectId,
           rep_partida_id = partida_id sp,
           rep_user_id = currentUserId,
           report_date = today,
           progress_value = or0 (parseFloat (progressInput rf)),
           labor_data = ldata,
           materials_data = mdata,
           photos = rf_photos rf,
           rep_notes = rf_notes rf,
           total_labor_cost = foldl (\<lambda>sum l. jsadd sum (le_cost l)) (Num 0) ldata,
           total_materials_cost = foldl (\<lambda>sum m. jsadd sum (me_total_cost m)) (Num 0) mdata \<rparr>)"

text \<open>The result is the text of the \<^verbatim>\<open>alert\<close> (\<open>None\<close> when the validation
  refused and nothing was sent) and the tables afterwards. A selected partida is the
  object held by the form: its own \<^verbatim>\<open>current_progress\<close> is what the update
  adds to.\<close>

definition handleSubmit_report ::
  "string \<Rightarrow> string \<Rightarrow> string \<Rightarrow> material list \<Rightarrow> reportForm \<Rightarrow> report_reply \<Rightarrow> report_store
     \<Rightarrow> string option \<times> report_store" where
  "handleSubmit_report projectId currentUserId today catalog rf reply st =
     (case (validateSubmission rf, selectedPartida rf) of
        (Accepted, Some sp) \<Rightarrow>
          (case reportError reply of
             Some m \<Rightarrow> (Some (''Error al guardar el reporte: '' @ m), st)
           | None \<Rightarrow>
               (let report = reportRow projectId currentUserId today catalog rf sp (new_report_id reply);
                    st1 = st\<lparr> daily_reports := daily_reports st @ [report] \<rparr>;
                    newProgress = num0 (current_progress sp) + or0 (parseFloat (progressInput rf))
                in case updateError reply of
                     Some m \<Rightarrow> (Some (''Error al guardar el reporte: '' @ m), st1)
                   | None \<Rightarrow>
                       (Some ''Reporte diario guardado exitosamente'',
                        st1\<lparr> partidas :=
                               map (\<lambda>p. if partida_id p = partida_id sp
                                         then p\<lparr> current_progress := Some newProgress \<rparr> else p)
                                 (partidas st1) \<rparr>)))
      | _ \<Rightarrow> (None, st))"

section \<open>Sequences of operations on the daily logs\<close>









section \<open>Scenario data\<close>

text \<open>The data of the specification's scenarios: an item budgeted at 50, logs against
  it, a requisition.\<close>

definition sc_session :: session where
  "sc_session = \<lparr> user_id = ''u1'', currentProject_id = ''p1'' \<rparr>"

definition sc_item :: boq_item where
  "sc_item = \<lparr> boq_id = ''b1'', boq_code = ''01.01'', total_metrado = 50, unit_price = 10 \<rparr>"

definition sc_form :: "string \<Rightarrow> string \<Rightarrow> formData" where
  "sc_form i q = \<lparr> boqItemId = i, date = ''2024-05-02'', quantityExecuted = q, form_notes = [],
                   labor = [], materials = [], machinery = [] \<rparr>"


definition sc_log :: "string \<Rightarrow> rat \<Rightarrow> string \<Rightarrow> daily_log" where
  "sc_log i q st =
     \<lparr> log_id = i, project_id = ''p1'', boq_item_id = ''b1'', foreman_id = ''u1'',
       log_date = ''2024-05-02'', quantity_executed = Some q, labor_json = [], materials_json = [],
       machinery_json = [], evidence_urls = [], log_notes = [], status = st,
       reviewed_by = None, reviewed_at = None, rejection_reason = None \<rparr>"

definition sc_req :: "string \<Rightarrow> string \<Rightarrow> row" where
  "sc_req i st = [''id'' \<mapsto> Str i, ''item_name'' \<mapsto> Str ''Cemento'', ''quantity'' \<mapsto> Str ''10'',
                  ''status'' \<mapsto> Str st]"

definition sc_docs :: "bool \<Rightarrow> bool \<Rightarrow> bool \<Rightarrow> documents" where
  "sc_docs f g p = \<lparr> factura = f, guia = g, foto = p \<rparr>"

definition sc_partida :: partida where
  "sc_partida = \<lparr> partida_id = ''pa1'', current_progress = Some 10, total_budgeted = Some 50 \<rparr>"

definition sc_reportForm :: reportForm where
  "sc_reportForm =
     \<lparr> selectedPartida = Some sc_partida, progressInput = ''5'',
       laborRows = [\<lparr> worker_type = ''peon'', hours = ''8'' \<rparr>],
       materialRows = [\<lparr> material_id = [], quantity = [] \<rparr>],
       rf_photos = [], rf_notes = [] \<rparr>"

definition sc_store :: report_store where
  "sc_store = \<lparr> daily_reports = [], partidas = [sc_partida] \<rparr>"

section \<open>Properties of the daily logs\<close>

subsection \<open>Auxiliary facts\<close>


lemmas parse_simps = parseFloat_def isDigit_def isWhite_def digitsVal_def digitVal_def



subsection \<open>The validation is skipped on an empty field\<close>

text \<open>
  Claim C9. When the selected item id or the quantity text of the form is empty,
  \<^verbatim>\<open>validateQuantity\<close> answers \<^verbatim>\<open>{valid: true}\<close> whatever the items and the logs
  are: nothing is compared with the budgeted quantity.
\<close>

theorem validateQuantity_empty_field:
  "boqItemId fd = [] \<or> quantityExecuted fd = [] \<Longrightarrow>
   validateQuantity fd boqItems dailyLogs = Valid None"
  by (auto simp: validateQuantity_def)

text \<open>With 60 pending against the budget of 50 and no quantity typed, the answer is
  still valid.\<close>

theorem validateQuantity_empty_field_witness:
  "(boqItemId (sc_form ''b1'' []) = [] \<or> quantityExecuted (sc_form ''b1'' []) = []) \<and>
   validateQuantity (sc_form ''b1'' []) [sc_item] [sc_log ''l1'' 60 ''pending''] = Valid None"
  using validateQuantity_empty_field [of "sc_form ''b1'' []" "[sc_item]" "[sc_log ''l1'' 60 ''pending'']"]
  by (simp add: sc_form_def)

subsection \<open>A submission over the budget\<close>



subsection \<open>The sign of a quantity\<close>





subsection \<open>No guard on the status of a log\<close>









section \<open>Properties of the requisitions\<close>

subsection \<open>What an update writes\<close>

lemma updateData_status:
  "''status'' \<notin> dom ad \<Longrightarrow> updateData se now st ad ''status'' = Some (Str st)"
  by (simp add: updateData_def Let_def map_add_def domIff)


lemma updateData_in_transit:
  "updateData se now ''in_transit'' ad =
     ([''status'' \<mapsto> Str ''in_transit''] ++ ad)(''purchased_by'' \<mapsto> Str (user_id se), ''purchased_at'' \<mapsto> Str now)"
  by (simp add: updateData_def Let_def)

lemma updateData_completed:
  "updateData se now ''completed'' ad =
     ([''status'' \<mapsto> Str ''completed''] ++ ad)(''received_by'' \<mapsto> Str (user_id se), ''received_at'' \<mapsto> Str now)"
  by (simp add: updateData_def Let_def)

lemma updateData_received:
  "updateData se now ''received'' ad =
     ([''status'' \<mapsto> Str ''received''] ++ ad)(''received_by'' \<mapsto> Str (user_id se), ''received_at'' \<mapsto> Str now)"
  by (simp add: updateData_def Let_def)




subsection \<open>The two labels of a finished requisition\<close>

text \<open>
  Claim C10, as stated, at \<^verbatim>\<open>getStatusBadge\<close>: it does tell the two labels
  apart, by the label text and by the icon.
\<close>

theorem getStatusBadge_received_completed_counterexample:
  "label (getStatusBadge ''received'') = ''Recibido'' \<and>
   label (getStatusBadge ''completed'') = ''Completado'' \<and>
   icon (getStatusBadge ''received'') = 0x1F4E6 \<and>
   icon (getStatusBadge ''completed'') = 0x2705 \<and>
   getStatusBadge ''received'' \<noteq> getStatusBadge ''completed''"
  by (simp add: getStatusBadge_def badges_def)

text \<open>
  Claim C10, amended. \<^verbatim>\<open>updateRequisitionStatus\<close> writes the same receiver and
  receipt time for \<^verbatim>\<open>received\<close> and for \<^verbatim>\<open>completed\<close>: the two updates
  differ in no column but the status. The logistics view lists a requisition as
  completed exactly when its status is one of the two. \<^verbatim>\<open>getStatusBadge\<close> gives
  the two labels the same colours, and a different text.
\<close>

theorem received_completed_alike:
  "(\<forall>k. k \<noteq> ''status'' \<longrightarrow>
      updateData se now ''received'' additionalData k = updateData se now ''completed'' additionalData k) \<and>
   updateData se now ''received'' additionalData ''received_by'' = Some (Str (user_id se)) \<and>
   updateData se now ''received'' additionalData ''received_at'' = Some (Str now) \<and>
   (r \<in> set (completedReqs requisitions) \<longleftrightarrow>
      r \<in> set requisitions \<and>
      (r ''status'' = Some (Str ''completed'') \<or> r ''status'' = Some (Str ''received''))) \<and>
   bg (getStatusBadge ''received'') = bg (getStatusBadge ''completed'') \<and>
   text_class (getStatusBadge ''received'') = text_class (getStatusBadge ''completed'') \<and>
   label (getStatusBadge ''received'') \<noteq> label (getStatusBadge ''completed'')"
proof (intro conjI allI impI)
  fix k :: string assume "k \<noteq> ''status''"
  then show "updateData se now ''received'' additionalData k = updateData se now ''completed'' additionalData k"
    by (simp add: updateData_received updateData_completed map_add_def split: option.splits)
next
  show "r \<in> set (completedReqs requisitions) \<longleftrightarrow>
      r \<in> set requisitions \<and>
      (r ''status'' = Some (Str ''completed'') \<or> r ''status'' = Some (Str ''received''))"
    by (simp add: completedReqs_def)
qed (simp_all add: updateData_received getStatusBadge_def badges_def)

theorem received_completed_alike_witness:
  "''received_by'' \<noteq> ''status'' \<and>
   updateData sc_session ''t4'' ''received'' Map.empty ''received_by''
     = updateData sc_session ''t4'' ''completed'' Map.empty ''received_by'' \<and>
   updateData sc_session ''t4'' ''received'' Map.empty ''received_by'' = Some (Str ''u1'') \<and>
   map (\<lambda>r. r ''id'')
     (completedReqs [sc_req ''r1'' ''received'', sc_req ''r2'' ''in_transit'', sc_req ''r3'' ''completed''])
     = [Some (Str ''r1''), Some (Str ''r3'')]"
proof -
  note t = received_completed_alike [of sc_session "''t4''" Map.empty "sc_req ''r1'' ''received''"
      "[sc_req ''r1'' ''received'', sc_req ''r2'' ''in_transit'', sc_req ''r3'' ''completed'']"]
  have n: "''received_by'' \<noteq> ''status''"
    by simp
  from t have "\<forall>k. k \<noteq> ''status'' \<longrightarrow>
      updateData sc_session ''t4'' ''received'' Map.empty k
        = updateData sc_session ''t4'' ''completed'' Map.empty k"
    by (rule conjunct1)
  with n have a: "updateData sc_session ''t4'' ''received'' Map.empty ''received_by''
        = updateData sc_session ''t4'' ''completed'' Map.empty ''received_by''"
    by (elim allE impE)
  from t have b: "updateData sc_session ''t4'' ''received'' Map.empty ''received_by'' = Some (Str (user_id sc_session))"
    by (elim conjE)
  have c: "map (\<lambda>r. r ''id'')
     (completedReqs [sc_req ''r1'' ''received'', sc_req ''r2'' ''in_transit'', sc_req ''r3'' ''completed''])
     = [Some (Str ''r1''), Some (Str ''r3'')]"
    by (simp add: completedReqs_def sc_req_def)
  from n a b c show ?thesis
    by (simp add: sc_session_def)
qed

subsection \<open>Recording a purchase\<close>

lemma updateRequisitionStatus_ok:
  "snd (updateRequisitionStatus se now reqId st ad None requisitions) =
     map (\<lambda>r. if r ''id'' = Some (Str reqId) then r ++ updateData se now st ad else r) requisitions"
  by (simp add: updateRequisitionStatus_def)


lemma updateRequisitionStatus_status:
  assumes "r' \<in> set (snd (updateRequisitionStatus se now reqId st ad None requisitions))"
    and "r' ''id'' = Some (Str reqId)"
    and "''status'' \<notin> dom ad"
  shows "r' ''status'' = Some (Str st)"
proof -
  let ?f = "\<lambda>r. if r ''id'' = Some (Str reqId) then r ++ updateData se now st ad else r"
  from assms(1) have "r' \<in> ?f ` set requisitions"
    by (simp only: updateRequisitionStatus_ok set_map)
  then obtain r where r: "r' = ?f r"
    by (elim imageE)
  show ?thesis
  proof (cases "r ''id'' = Some (Str reqId)")
    case True
    with r have "r' = r ++ updateData se now st ad"
      by simp
    then show ?thesis
      by (simp add: map_add_def updateData_status [OF assms(3)])
  next
    case False
    with r assms(2) show ?thesis
      by simp
  qed
qed

lemma updateRequisitionStatus_member:
  assumes "r \<in> set requisitions" and "r ''id'' = Some (Str reqId)"
  shows "r ++ updateData se now st ad \<in> set (snd (updateRequisitionStatus se now reqId st ad None requisitions))"
proof -
  let ?f = "\<lambda>r. if r ''id'' = Some (Str reqId) then r ++ updateData se now st ad else r"
  have e: "?f r = r ++ updateData se now st ad"
    using assms(2) by simp
  from assms(1) have "?f r \<in> ?f ` set requisitions"
    by (rule imageI)
  then have "r ++ updateData se now st ad \<in> ?f ` set requisitions"
    by (simp only: e)
  then show ?thesis
    by (simp only: updateRequisitionStatus_ok set_map)
qed

text \<open>The extra data of \<^verbatim>\<open>handlePurchase\<close>.\<close>

lemma handlePurchase_with_invoice:
  "handlePurchase se now ms \<lparr> factura = True, guia = g, foto = p \<rparr> reqId None requisitions =
     ((Text ''Compra registrada exitosamente'', ''success''),
      snd (updateRequisitionStatus se now reqId ''in_transit''
             [''evidence_urls'' \<mapsto>
                Obj [(''factura'', Str (''FAC-'' @ ms @ ''.pdf'')),
                     (''guia_remision'', if g then Str (''GR-'' @ ms @ ''.pdf'') else Null),
                     (''foto_material'', if p then Str (''FOTO-'' @ ms @ ''.jpg'') else Null)]]
             None requisitions))"
  by (simp add: handlePurchase_def updateRequisitionStatus_def)

lemma handlePurchase_without_invoice:
  "handlePurchase se now ms \<lparr> factura = False, guia = g, foto = p \<rparr> reqId err requisitions
     = ((Text ''La factura es requerida'', ''warning''), requisitions)"
  by (simp add: handlePurchase_def)

lemma handlePurchase_all_in_transit:
  assumes "r' \<in> set (snd (handlePurchase se now ms \<lparr> factura = True, guia = g, foto = p \<rparr> reqId None
                             requisitions))"
    and i: "r' ''id'' = Some (Str reqId)"
  shows "r' ''status'' = Some (Str ''in_transit'')"
proof -
  from assms(1) have "r' \<in> set (snd (updateRequisitionStatus se now reqId ''in_transit''
             [''evidence_urls'' \<mapsto>
                Obj [(''factura'', Str (''FAC-'' @ ms @ ''.pdf'')),
                     (''guia_remision'', if g then Str (''GR-'' @ ms @ ''.pdf'') else Null),
                     (''foto_material'', if p then Str (''FOTO-'' @ ms @ ''.jpg'') else Null)]]
             None requisitions))"
    by (simp only: handlePurchase_with_invoice snd_conv)
  then show "r' ''status'' = Some (Str ''in_transit'')"
    using i by (rule updateRequisitionStatus_status) simp
qed

lemma handlePurchase_recorded:
  assumes "r \<in> set requisitions"
    and "r ''id'' = Some (Str reqId)"
  shows "\<exists>r' \<in> set (snd (handlePurchase se now ms \<lparr> factura = True, guia = g, foto = p \<rparr> reqId None
                             requisitions)).
            r' ''id'' = Some (Str reqId) \<and> r' ''status'' = Some (Str ''in_transit'') \<and>
            r' ''purchased_by'' = Some (Str (user_id se))"
proof (rule bexI)
  let ?e = "Obj [(''factura'', Str (''FAC-'' @ ms @ ''.pdf'')),
                     (''guia_remision'', if g then Str (''GR-'' @ ms @ ''.pdf'') else Null),
                     (''foto_material'', if p then Str (''FOTO-'' @ ms @ ''.jpg'') else Null)]"
  let ?r' = "r ++ updateData se now ''in_transit'' [''evidence_urls'' \<mapsto> ?e]"
  show "?r' \<in> set (snd (handlePurchase se now ms \<lparr> factura = True, guia = g, foto = p \<rparr> reqId None
                             requisitions))"
    unfolding handlePurchase_with_invoice snd_conv
    by (rule updateRequisitionStatus_member [OF assms(1) assms(2)])
  show "?r' ''id'' = Some (Str reqId) \<and> ?r' ''status'' = Some (Str ''in_transit'') \<and>
        ?r' ''purchased_by'' = Some (Str (user_id se))"
    using assms(2) by (simp add: updateData_in_transit map_add_def)
qed

text \<open>
  Claim C5. For a requisition in \<^verbatim>\<open>to_buy\<close>: without the invoice,
  \<^verbatim>\<open>handlePurchase\<close> answers with the warning that the invoice is required and
  the table is the one before, so the requisition is still in \<^verbatim>\<open>to_buy\<close>; with
  the invoice, and the backend accepting the update, the purchase is recorded (the
  requisition is in \<^verbatim>\<open>in_transit\<close> with its purchaser), whether or not the waybill
  and the photo are there.
\<close>

theorem handlePurchase_invoice_required:
  assumes "r \<in> set requisitions"
    and "r ''id'' = Some (Str reqId)"
    and "r ''status'' = Some (Str ''to_buy'')"
  shows "handlePurchase se now ms \<lparr> factura = False, guia = g, foto = p \<rparr> reqId err requisitions
           = ((Text ''La factura es requerida'', ''warning''), requisitions) \<and>
         r \<in> set (snd (handlePurchase se now ms \<lparr> factura = False, guia = g, foto = p \<rparr> reqId err requisitions)) \<and>
         r ''status'' = Some (Str ''to_buy'') \<and>
         fst (handlePurchase se now ms \<lparr> factura = True, guia = g, foto = p \<rparr> reqId None requisitions)
           = (Text ''Compra registrada exitosamente'', ''success'') \<and>
         (\<exists>r' \<in> set (snd (handlePurchase se now ms \<lparr> factura = True, guia = g, foto = p \<rparr> reqId None
                             requisitions)).
            r' ''id'' = Some (Str reqId) \<and> r' ''status'' = Some (Str ''in_transit'') \<and>
            r' ''purchased_by'' = Some (Str (user_id se))) \<and>
         (\<forall>r' \<in> set (snd (handlePurchase se now ms \<lparr> factura = True, guia = g, foto = p \<rparr> reqId None
                             requisitions)).
            r' ''id'' = Some (Str reqId) \<longrightarrow> r' ''status'' = Some (Str ''in_transit''))"
proof -
  have a: "handlePurchase se now ms \<lparr> factura = False, guia = g, foto = p \<rparr> reqId err requisitions
           = ((Text ''La factura es requerida'', ''warning''), requisitions)"
    by (rule handlePurchase_without_invoice)
  have b: "fst (handlePurchase se now ms \<lparr> factura = True, guia = g, foto = p \<rparr> reqId None requisitions)
           = (Text ''Compra registrada exitosamente'', ''success'')"
    by (simp only: handlePurchase_with_invoice fst_conv)
  have c: "\<exists>r' \<in> set (snd (handlePurchase se now ms \<lparr> factura = True, guia = g, foto = p \<rparr> reqId None
                             requisitions)).
            r' ''id'' = Some (Str reqId) \<and> r' ''status'' = Some (Str ''in_transit'') \<and>
            r' ''purchased_by'' = Some (Str (user_id se))"
    by (rule handlePurchase_recorded [OF assms(1) assms(2)])
  have d: "\<forall>r' \<in> set (snd (handlePurchase se now ms \<lparr> factura = True, guia = g, foto = p \<rparr> reqId None
                             requisitions)).
            r' ''id'' = Some (Str reqId) \<longrightarrow> r' ''status'' = Some (Str ''in_transit'')"
  proof (intro ballI impI)
    fix r' assume "r' \<in> set (snd (handlePurchase se now ms \<lparr> factura = True, guia = g, foto = p \<rparr> reqId None
                             requisitions))" and "r' ''id'' = Some (Str reqId)"
    then show "r' ''status'' = Some (Str ''in_transit'')"
      by (rule handlePurchase_all_in_transit)
  qed
  have a': "r \<in> set (snd (handlePurchase se now ms \<lparr> factura = False, guia = g, foto = p \<rparr> reqId err requisitions))"
    using assms(1) by (simp only: a snd_conv)
  from a a' assms(3) b c d show ?thesis
    by (intro conjI)
qed

text \<open>A requisition in \<^verbatim>\<open>to_buy\<close>, first without any document, then with the
  invoice alone.\<close>

theorem handlePurchase_invoice_required_witness:
  "sc_req ''r1'' ''to_buy'' \<in> set [sc_req ''r1'' ''to_buy''] \<and>
   sc_req ''r1'' ''to_buy'' ''id'' = Some (Str ''r1'') \<and>
   sc_req ''r1'' ''to_buy'' ''status'' = Some (Str ''to_buy'') \<and>
   handlePurchase sc_session ''t3'' ''1714600000000'' \<lparr> factura = False, guia = False, foto = False \<rparr>
       ''r1'' None [sc_req ''r1'' ''to_buy'']
     = ((Text ''La factura es requerida'', ''warning''), [sc_req ''r1'' ''to_buy'']) \<and>
   fst (handlePurchase sc_session ''t3'' ''1714600000000'' \<lparr> factura = True, guia = False, foto = False \<rparr>
          ''r1'' None [sc_req ''r1'' ''to_buy''])
     = (Text ''Compra registrada exitosamente'', ''success'') \<and>
   map (\<lambda>r. (r ''status'', r ''purchased_by''))
     (snd (handlePurchase sc_session ''t3'' ''1714600000000'' \<lparr> factura = True, guia = False, foto = False \<rparr>
             ''r1'' None [sc_req ''r1'' ''to_buy'']))
     = [(Some (Str ''in_transit''), Some (Str ''u1''))]"
proof -
  have h1: "sc_req ''r1'' ''to_buy'' \<in> set [sc_req ''r1'' ''to_buy'']"
    by simp
  have h2: "sc_req ''r1'' ''to_buy'' ''id'' = Some (Str ''r1'')"
    by (simp add: sc_req_def)
  have h3: "sc_req ''r1'' ''to_buy'' ''status'' = Some (Str ''to_buy'')"
    by (simp add: sc_req_def)
  note t = handlePurchase_invoice_required [OF h1 h2 h3, of sc_session "''t3''" "''1714600000000''"
      False False None]
  from t have a: "handlePurchase sc_session ''t3'' ''1714600000000'' \<lparr> factura = False, guia = False, foto = False \<rparr>
       ''r1'' None [sc_req ''r1'' ''to_buy'']
     = ((Text ''La factura es requerida'', ''warning''), [sc_req ''r1'' ''to_buy''])"
    by (rule conjunct1)
  from t have b: "fst (handlePurchase sc_session ''t3'' ''1714600000000'' \<lparr> factura = True, guia = False, foto = False \<rparr>
          ''r1'' None [sc_req ''r1'' ''to_buy''])
     = (Text ''Compra registrada exitosamente'', ''success'')"
    by (elim conjE)
  have c: "map (\<lambda>r. (r ''status'', r ''purchased_by''))
     (snd (handlePurchase sc_session ''t3'' ''1714600000000'' \<lparr> factura = True, guia = False, foto = False \<rparr>
             ''r1'' None [sc_req ''r1'' ''to_buy'']))
     = [(Some (Str ''in_transit''), Some (Str ''u1''))]"
    by (simp add: handlePurchase_with_invoice updateRequisitionStatus_ok updateData_in_transit
        map_add_def sc_req_def sc_session_def)
  from h1 h2 h3 a b c show ?thesis
    by (intro conjI)
qed

subsection \<open>No guard on the state of a requisition\<close>





section \<open>Properties of the daily reports\<close>

text \<open>
  Claim C6, as stated, at a submission whose report is inserted and whose progress
  update the backend then refuses: the operation ends in the error alert, the report
  is stored, and the progress of the partida is the one before.
\<close>

theorem report_without_progress_counterexample:
  "validateSubmission sc_reportForm = Accepted \<and>
   fst (handleSubmit_report ''p1'' ''u1'' ''2024-05-02'' [] sc_reportForm
          \<lparr> reportError = None, updateError = Some ''timeout'', new_report_id = ''d1'' \<rparr> sc_store)
     = Some ''Error al guardar el reporte: timeout'' \<and>
   map (\<lambda>r. (report_id r, rep_partida_id r, progress_value r))
     (daily_reports (snd (handleSubmit_report ''p1'' ''u1'' ''2024-05-02'' [] sc_reportForm
          \<lparr> reportError = None, updateError = Some ''timeout'', new_report_id = ''d1'' \<rparr> sc_store)))
     = [(''d1'', ''pa1'', 5)] \<and>
   daily_reports sc_store = [] \<and>
   partidas (snd (handleSubmit_report ''p1'' ''u1'' ''2024-05-02'' [] sc_reportForm
          \<lparr> reportError = None, updateError = Some ''timeout'', new_report_id = ''d1'' \<rparr> sc_store))
     = partidas sc_store"
proof -
  have p5: "parseFloat ''5'' = Num 5" and p8: "parseFloat ''8'' = Num 8"
    by (simp_all add: parse_simps)
  have v: "validateSubmission sc_reportForm = Accepted"
    by (simp add: validateSubmission_def sc_reportForm_def sc_partida_def positiveText_def p5 p8)
  show ?thesis
    using v
    by (simp add: handleSubmit_report_def reportRow_def Let_def)
      (simp add: sc_reportForm_def sc_partida_def sc_store_def p5 reportRow_def Let_def)
qed


lemma validateSubmission_selected:
  "validateSubmission rf = Accepted \<Longrightarrow> \<exists>sp. selectedPartida rf = Some sp"
  by (cases "selectedPartida rf") (simp_all add: validateSubmission_def)

lemma handleSubmit_report_refused:
  "validateSubmission rf = Refused msg \<Longrightarrow>
   handleSubmit_report projectId currentUserId today catalog rf reply st = (None, st)"
  by (simp add: handleSubmit_report_def)

lemma handleSubmit_report_insert_failed:
  "snd (handleSubmit_report projectId currentUserId today catalog rf
          \<lparr> reportError = Some m, updateError = u, new_report_id = i \<rparr> st) = st"
  by (cases "validateSubmission rf"; cases "selectedPartida rf")
    (simp_all add: handleSubmit_report_def Let_def)

lemma reportRow_fields:
  "report_id (reportRow projectId currentUserId today catalog rf sp i) = i"
  "rep_partida_id (reportRow projectId currentUserId today catalog rf sp i) = partida_id sp"
  "progress_value (reportRow projectId currentUserId today catalog rf sp i)
     = or0 (parseFloat (progressInput rf))"
  by (simp_all add: reportRow_def Let_def)

lemma handleSubmit_report_update_failed:
  assumes "validateSubmission rf = Accepted" and "selectedPartida rf = Some sp"
  shows "handleSubmit_report projectId currentUserId today catalog rf
           \<lparr> reportError = None, updateError = Some m, new_report_id = i \<rparr> st
         = (Some (''Error al guardar el reporte: '' @ m),
            st\<lparr> daily_reports :=
                  daily_reports st @ [reportRow projectId currentUserId today catalog rf sp i] \<rparr>)"
  using assms by (simp add: handleSubmit_report_def Let_def)

lemma handleSubmit_report_done:
  assumes "validateSubmission rf = Accepted" and "selectedPartida rf = Some sp"
  shows "handleSubmit_report projectId currentUserId today catalog rf
           \<lparr> reportError = None, updateError = None, new_report_id = i \<rparr> st
         = (Some ''Reporte diario guardado exitosamente'',
            \<lparr> daily_reports = daily_reports st @ [reportRow projectId currentUserId today catalog rf sp i],
              partidas = map (\<lambda>p. if partida_id p = partida_id sp
                                    then p\<lparr> current_progress :=
                                             Some (num0 (current_progress sp)
                                                   + or0 (parseFloat (progressInput rf))) \<rparr>
                                    else p) (partidas st) \<rparr>)"
  using assms by (simp add: handleSubmit_report_def Let_def)

lemma createDailyLog_failed:
  "createDailyLog se ld evidenceFile \<lparr> uploaded = up, insert_error = Some m, new_id = i \<rparr> dailyLogs
     = (Inl m, dailyLogs)"
  by (simp add: createDailyLog_def Let_def)

lemma createDailyLog_done:
  "\<exists>row. createDailyLog se ld evidenceFile \<lparr> uploaded = up, insert_error = None, new_id = i \<rparr> dailyLogs
           = (Inr row, row # dailyLogs) \<and>
         log_id row = i \<and> status row = ''pending'' \<and> boq_item_id row = ld_boqItemId ld \<and>
         quantity_executed row = toJSON (ld_quantityExecuted ld)"
  by (simp add: createDailyLog_def Let_def)


lemma handleSubmit_insert_failed:
  "snd (handleSubmit se boqItems fd evidenceFile \<lparr> uploaded = up, insert_error = Some m, new_id = i \<rparr>
          dailyLogs) = dailyLogs"
  by (cases "valid (validateQuantity fd boqItems dailyLogs)")
    (simp_all add: handleSubmit_def createDailyLog_def Let_def)

text \<open>
  Claim C6, amended. A submission of a daily report is two writes with nothing to undo
  the first. When the validation refuses, or the insert of the report fails, the
  stored state is the one before. When the insert succeeds and the update of the
  progress fails, the report stays stored and the progress of the partida is the one
  before: the operation ends in an error with half of its writes done. When both
  succeed, the report is stored and the progress of the selected partida is raised by
  the quantity. The submission of a daily log is one insert: when it fails the table
  of daily logs is the one before, and otherwise one pending row is added.
\<close>

theorem submission_write_outcomes:
  assumes "validateSubmission rf = Accepted"
    and "selectedPartida rf = Some sp"
    and "validateSubmission rf0 = Refused msg"
  shows "handleSubmit_report projectId currentUserId today catalog rf0 reply st = (None, st) \<and>
         snd (handleSubmit_report projectId currentUserId today catalog rf
                \<lparr> reportError = Some m, updateError = u, new_report_id = i \<rparr> st) = st \<and>
         handleSubmit_report projectId currentUserId today catalog rf
             \<lparr> reportError = None, updateError = Some m, new_report_id = i \<rparr> st
           = (Some (''Error al guardar el reporte: '' @ m),
              st\<lparr> daily_reports :=
                    daily_reports st @ [reportRow projectId currentUserId today catalog rf sp i] \<rparr>) \<and>
         handleSubmit_report projectId currentUserId today catalog rf
             \<lparr> reportError = None, updateError = None, new_report_id = i \<rparr> st
           = (Some ''Reporte diario guardado exitosamente'',
              \<lparr> daily_reports = daily_reports st @ [reportRow projectId currentUserId today catalog rf sp i],
                partidas = map (\<lambda>p. if partida_id p = partida_id sp
                                      then p\<lparr> current_progress :=
                                               Some (num0 (current_progress sp)
                                                     + or0 (parseFloat (progressInput rf))) \<rparr>
                                      else p) (partidas st) \<rparr>) \<and>
         snd (handleSubmit se boqItems fd evidenceFile
                \<lparr> uploaded = up, insert_error = Some m, new_id = j \<rparr> dailyLogs) = dailyLogs \<and>
         (\<exists>row. createDailyLog se ld evidenceFile
                   \<lparr> uploaded = up, insert_error = None, new_id = j \<rparr> dailyLogs
                 = (Inr row, row # dailyLogs) \<and>
               log_id row = j \<and> status row = ''pending'' \<and> boq_item_id row = ld_boqItemId ld \<and>
               quantity_executed row = toJSON (ld_quantityExecuted ld))"
proof (intro conjI)
  show "handleSubmit_report projectId currentUserId today catalog rf0 reply st = (None, st)"
    using assms(3) by (rule handleSubmit_report_refused)
qed (rule handleSubmit_report_insert_failed
       handleSubmit_report_update_failed [OF assms(1) assms(2)]
       handleSubmit_report_done [OF assms(1) assms(2)]
       handleSubmit_insert_failed createDailyLog_done)+

text \<open>The form of the scenario, and the same form with no partida selected.\<close>

theorem submission_write_outcomes_witness:
  "validateSubmission sc_reportForm = Accepted \<and>
   selectedPartida sc_reportForm = Some sc_partida \<and>
   validateSubmission (sc_reportForm\<lparr> selectedPartida := None \<rparr>)
     = Refused ''Debe seleccionar una partida'' \<and>
   handleSubmit_report ''p1'' ''u1'' ''2024-05-02'' [] (sc_reportForm\<lparr> selectedPartida := None \<rparr>)
       \<lparr> reportError = None, updateError = None, new_report_id = ''d1'' \<rparr> sc_store = (None, sc_store) \<and>
   snd (handleSubmit_report ''p1'' ''u1'' ''2024-05-02'' [] sc_reportForm
          \<lparr> reportError = Some ''timeout'', updateError = None, new_report_id = ''d1'' \<rparr> sc_store)
     = sc_store \<and>
   map current_progress
     (partidas (snd (handleSubmit_report ''p1'' ''u1'' ''2024-05-02'' [] sc_reportForm
                       \<lparr> reportError = None, updateError = Some ''timeout'', new_report_id = ''d1'' \<rparr>
                       sc_store))) = [Some 10] \<and>
   map current_progress
     (partidas (snd (handleSubmit_report ''p1'' ''u1'' ''2024-05-02'' [] sc_reportForm
                       \<lparr> reportError = None, updateError = None, new_report_id = ''d1'' \<rparr>
                       sc_store))) = [Some 15]"
proof -
  have p5: "parseFloat ''5'' = Num 5" and p8: "parseFloat ''8'' = Num 8"
    by (simp_all add: parse_simps)
  have a: "validateSubmission sc_reportForm = Accepted"
    by (simp add: validateSubmission_def sc_reportForm_def sc_partida_def positiveText_def p5 p8)
  have b: "selectedPartida sc_reportForm = Some sc_partida"
    by (simp add: sc_reportForm_def)
  have c: "validateSubmission (sc_reportForm\<lparr> selectedPartida := None \<rparr>)
     = Refused ''Debe seleccionar una partida''"
    by (simp add: validateSubmission_def)
  note t = submission_write_outcomes [OF a b c, of "''p1''" "''u1''" "''2024-05-02''" "[]"
      "\<lparr> reportError = None, updateError = None, new_report_id = ''d1'' \<rparr>" sc_store
      "''timeout''" None "''d1''"]
  from t have d: "handleSubmit_report ''p1'' ''u1'' ''2024-05-02'' [] (sc_reportForm\<lparr> selectedPartida := None \<rparr>)
       \<lparr> reportError = None, updateError = None, new_report_id = ''d1'' \<rparr> sc_store = (None, sc_store)"
    by (rule conjunct1)
  have e: "snd (handleSubmit_report ''p1'' ''u1'' ''2024-05-02'' [] sc_reportForm
          \<lparr> reportError = Some ''timeout'', updateError = None, new_report_id = ''d1'' \<rparr> sc_store)
     = sc_store"
    by (rule t [THEN conjunct2, THEN conjunct1])
  have f: "handleSubmit_report ''p1'' ''u1'' ''2024-05-02'' [] sc_reportForm
             \<lparr> reportError = None, updateError = Some ''timeout'', new_report_id = ''d1'' \<rparr> sc_store
           = (Some (''Error al guardar el reporte: '' @ ''timeout''),
              sc_store\<lparr> daily_reports :=
                    daily_reports sc_store
                    @ [reportRow ''p1'' ''u1'' ''2024-05-02'' [] sc_reportForm sc_partida ''d1''] \<rparr>)"
    by (rule t [THEN conjunct2, THEN conjunct2, THEN conjunct1])
  have g: "handleSubmit_report ''p1'' ''u1'' ''2024-05-02'' [] sc_reportForm
             \<lparr> reportError = None, updateError = None, new_report_id = ''d1'' \<rparr> sc_store
           = (Some ''Reporte diario guardado exitosamente'',
              \<lparr> daily_reports = daily_reports sc_store
                    @ [reportRow ''p1'' ''u1'' ''2024-05-02'' [] sc_reportForm sc_partida ''d1''],
                partidas = map (\<lambda>p. if partida_id p = partida_id sc_partida
                                      then p\<lparr> current_progress :=
                                               Some (num0 (current_progress sc_partida)
                                                     + or0 (parseFloat (progressInput sc_reportForm))) \<rparr>
                                      else p) (partidas sc_store) \<rparr>)"
    by (rule t [THEN conjunct2, THEN conjunct2, THEN conjunct2, THEN conjunct1])
  have f': "map current_progress
     (partidas (snd (handleSubmit_report ''p1'' ''u1'' ''2024-05-02'' [] sc_reportForm
                       \<lparr> reportError = None, updateError = Some ''timeout'', new_report_id = ''d1'' \<rparr>
                       sc_store))) = [Some 10]"
    by (simp add: f) (simp add: sc_store_def sc_partida_def)
  have g': "map current_progress
     (partidas (snd (handleSubmit_report ''p1'' ''u1'' ''2024-05-02'' [] sc_reportForm
                       \<lparr> reportError = None, updateError = None, new_report_id = ''d1'' \<rparr>
                       sc_store))) = [Some 15]"
    by (simp add: g) (simp add: sc_store_def sc_partida_def sc_reportForm_def p5)
  from a b c d e f' g' show ?thesis
    by (intro conjI)
qed

section \<open>The budget along sequences of operations\<close>


subsection \<open>What a step does to the sums\<close>











subsection \<open>Each offered step keeps the budget\<close>








subsection \<open>The budget along the operations that the views offer\<close>



end
